theory Spec2Isabelle
  imports Complex_Main
begin

section \<open>JavaScript values\<close>

text \<open>
  A JavaScript number is modelled by an exact rational, the two infinities and NaN.
  Decimal strings are read exactly and arithmetic on finite values is exact: the rounding
  of IEEE doubles, the overflow of very long digit strings and the sign of zero are
  outside this model. The special values arise the way they do in the language
  (\<open>0/0\<close> is NaN, \<open>x/0\<close> is an infinity).
\<close>

datatype number = Num rat | PosInf | NegInf | NaN

fun num_add :: "number \<Rightarrow> number \<Rightarrow> number" where
  "num_add (Num a) (Num b) = Num (a + b)"
| "num_add NaN _ = NaN"
| "num_add _ NaN = NaN"
| "num_add PosInf NegInf = NaN"
| "num_add NegInf PosInf = NaN"
| "num_add PosInf _ = PosInf"
| "num_add NegInf _ = NegInf"
| "num_add _ PosInf = PosInf"
| "num_add _ NegInf = NegInf"

fun num_mul :: "number \<Rightarrow> number \<Rightarrow> number" where
  "num_mul (Num a) (Num b) = Num (a * b)"
| "num_mul NaN _ = NaN"
| "num_mul _ NaN = NaN"
| "num_mul PosInf (Num b) = (if b = 0 then NaN else if 0 < b then PosInf else NegInf)"
| "num_mul NegInf (Num b) = (if b = 0 then NaN else if 0 < b then NegInf else PosInf)"
| "num_mul (Num a) PosInf = (if a = 0 then NaN else if 0 < a then PosInf else NegInf)"
| "num_mul (Num a) NegInf = (if a = 0 then NaN else if 0 < a then NegInf else PosInf)"
| "num_mul PosInf PosInf = PosInf"
| "num_mul NegInf NegInf = PosInf"
| "num_mul PosInf NegInf = NegInf"
| "num_mul NegInf PosInf = NegInf"

fun num_div :: "number \<Rightarrow> number \<Rightarrow> number" where
  "num_div (Num a) (Num b) =
     (if b = 0 then (if a = 0 then NaN else if 0 < a then PosInf else NegInf)
      else Num (a / b))"
| "num_div (Num a) PosInf = Num 0"
| "num_div (Num a) NegInf = Num 0"
| "num_div PosInf (Num b) = (if 0 \<le> b then PosInf else NegInf)"
| "num_div NegInf (Num b) = (if 0 \<le> b then NegInf else PosInf)"
| "num_div NaN _ = NaN"
| "num_div _ NaN = NaN"
| "num_div PosInf PosInf = NaN"
| "num_div PosInf NegInf = NaN"
| "num_div NegInf PosInf = NaN"
| "num_div NegInf NegInf = NaN"

definition isNaN :: "number \<Rightarrow> bool" where
  "isNaN x = (x = NaN)"

text \<open>
  A string is a list of code units. The type \<open>char\<close> holds the code units
  U+0000 to U+00FF (Latin-1), which \<open>toLowerCase\<close> maps into themselves.
\<close>

definition code :: "char \<Rightarrow> nat" where
  "code c = of_char c"

text \<open>The class \<open>\s\<close>: tab, line feed, vertical tab, form feed, carriage return,
  space and no-break space are the white space and line terminators below U+0100.\<close>

definition isWhiteSpace :: "char \<Rightarrow> bool" where
  "isWhiteSpace c = (code c \<in> {9, 10, 11, 12, 13, 32, 160})"

text \<open>The class \<open>\d\<close>.\<close>

definition isDigit :: "char \<Rightarrow> bool" where
  "isDigit c = (48 \<le> code c \<and> code c \<le> 57)"

text \<open>The class \<open>\w\<close>: \<open>[A-Za-z0-9_]\<close>.\<close>

definition isWordChar :: "char \<Rightarrow> bool" where
  "isWordChar c =
     ((65 \<le> code c \<and> code c \<le> 90) \<or> (97 \<le> code c \<and> code c \<le> 122)
      \<or> isDigit c \<or> c = CHR ''_'')"

text \<open>An upper-case letter (A to Z, and U+00C0 to U+00DE but the multiplication sign)
  becomes the code unit 32 above it, which sets bit 5.\<close>

definition isUpperCase :: "char \<Rightarrow> bool" where
  "isUpperCase c =
     ((65 \<le> code c \<and> code c \<le> 90)
      \<or> (192 \<le> code c \<and> code c \<le> 222 \<and> code c \<noteq> 215))"

definition toLowerCase_char :: "char \<Rightarrow> char" where
  "toLowerCase_char c =
     (if isUpperCase c
      then (case c of Char b0 b1 b2 b3 b4 b5 b6 b7 \<Rightarrow> Char b0 b1 b2 b3 b4 True b6 b7)
      else c)"

definition toLowerCase :: "string \<Rightarrow> string" where
  "toLowerCase s = map toLowerCase_char s"

fun startsWith :: "string \<Rightarrow> string \<Rightarrow> bool" where
  "startsWith s [] = True"
| "startsWith [] (y # ys) = False"
| "startsWith (x # xs) (y # ys) = (x = y \<and> startsWith xs ys)"

text \<open>\<open>s.includes(t)\<close>: \<open>t\<close> occurs in \<open>s\<close> as a contiguous run.\<close>

fun str_includes :: "string \<Rightarrow> string \<Rightarrow> bool" where
  "str_includes [] t = (t = [])"
| "str_includes (x # xs) t = (startsWith (x # xs) t \<or> str_includes xs t)"

text \<open>
  \<open>s.split(/\s+/)\<close>: the separators are the maximal runs of white space; the pieces
  between them are returned, with an empty piece before a leading and after a trailing
  separator, and \<open>[""]\<close> for the empty string.
\<close>

function split_ws :: "string \<Rightarrow> string list" where
  "split_ws [] = [[]]"
| "split_ws (c # cs) =
     (if isWhiteSpace c then [] # split_ws (dropWhile isWhiteSpace cs)
      else (case split_ws cs of [] \<Rightarrow> [[c]] | p # ps \<Rightarrow> (c # p) # ps))"
  by pat_completeness auto
termination
  by (relation "measure length") (auto simp: le_imp_less_Suc length_dropWhile_le)

section \<open>Title similarity\<close>

text \<open>\<open>normalize\<close>: lower case, then every character outside \<open>[\w\s]\<close> removed.\<close>

definition normalize :: "string \<Rightarrow> string" where
  "normalize str = filter (\<lambda>c. isWordChar c \<or> isWhiteSpace c) (toLowerCase str)"

text \<open>The words of a title: split on white space, words of length at most 2 dropped.\<close>

definition title_words :: "string \<Rightarrow> string list" where
  "title_words t = filter (\<lambda>w. length w > 2) (split_ws (normalize t))"

text \<open>The loop over \<open>words1\<close>: a word counts when some word of \<open>words2\<close> contains it
  or is contained in it.\<close>

definition matchCount :: "string list \<Rightarrow> string list \<Rightarrow> nat" where
  "matchCount words1 words2 =
     length (filter (\<lambda>word1. list_ex (\<lambda>word2. str_includes word2 word1 \<or> str_includes word1 word2) words2) words1)"

definition calculateWalmartTitleSimilarity :: "string \<Rightarrow> string \<Rightarrow> number" where
  "calculateWalmartTitleSimilarity title1 title2 =
     (if title1 = [] \<or> title2 = [] then Num 0
      else let words1 = title_words title1; words2 = title_words title2
           in num_div (Num (of_nat (matchCount words1 words2)))
                (Num (of_nat (max (length words1) (length words2)))))"

section \<open>Regular expressions\<close>

text \<open>
  The patterns of the source are written as terms of \<open>regex\<close> and run by a
  backtracking matcher in the style of the language definition: \<open>rmatch r st\<close> lists
  every way \<open>r\<close> can match at the start of the remaining input, in the order in which
  backtracking tries them, so the result of the match is the head of the list. A state
  is the remaining input and the captures so far. None of the patterns looks behind the
  start of a match (no \<open>^\<close>, \<open>\b\<close> or back reference), so the remaining input is all
  a match depends on.
\<close>

type_synonym captures = "nat \<Rightarrow> string option"

type_synonym mstate = "string \<times> captures"

datatype regex =
    Eps
  | Cls "char \<Rightarrow> bool"
  | Eol
  | Seq regex regex
  | Alt regex regex
  | Grp nat regex
  | Rep nat "nat option" bool regex

primrec groups :: "regex \<Rightarrow> nat list" where
  "groups Eps = []"
| "groups (Cls p) = []"
| "groups Eol = []"
| "groups (Seq a b) = groups a @ groups b"
| "groups (Alt a b) = groups a @ groups b"
| "groups (Grp n r) = n # groups r"
| "groups (Rep lo hi g r) = groups r"

definition clear :: "nat list \<Rightarrow> captures \<Rightarrow> captures" where
  "clear ns cs = (\<lambda>n. if n \<in> set ns then None else cs n)"

text \<open>
  The quantifier \<open>{lo,hi}\<close> (\<open>hi = None\<close>: unbounded; \<open>g\<close>: greedy) over a matcher
  \<open>m\<close>. Each iteration starts with the captures of the repeated part cleared; once
  the minimum is reached an iteration that consumes nothing is rejected.
\<close>

function rep :: "(mstate \<Rightarrow> mstate list) \<Rightarrow> nat list \<Rightarrow> nat \<Rightarrow> nat option \<Rightarrow> bool
    \<Rightarrow> mstate \<Rightarrow> mstate list" where
  "rep m ns lo hi g st =
     (if hi = Some 0 then [st]
      else let again = concat (map
                 (\<lambda>st'. if length (fst st') < length (fst st)
                            \<or> (0 < lo \<and> length (fst st') = length (fst st))
                         then rep m ns (lo - 1) (map_option (\<lambda>h. h - 1) hi) g st' else [])
                 (m (fst st, clear ns (snd st))))
           in if 0 < lo then again else if g then again @ [st] else st # again)"
  by pat_completeness auto
termination
  by (relation "measures [\<lambda>(m, ns, lo, hi, g, st). length (fst st),
                          \<lambda>(m, ns, lo, hi, g, st). lo]") auto

declare rep.simps [simp del]

primrec rmatch :: "regex \<Rightarrow> mstate \<Rightarrow> mstate list" where
  "rmatch Eps st = [st]"
| "rmatch (Cls p) st =
     (case fst st of [] \<Rightarrow> [] | x # xs \<Rightarrow> if p x then [(xs, snd st)] else [])"
| "rmatch Eol st = (if fst st = [] then [st] else [])"
| "rmatch (Seq a b) st = concat (map (rmatch b) (rmatch a st))"
| "rmatch (Alt a b) st = rmatch a st @ rmatch b st"
| "rmatch (Grp n r) st =
     map (\<lambda>st'. (fst st',
            (snd st')(n \<mapsto> take (length (fst st) - length (fst st')) (fst st))))
       (rmatch r st)"
| "rmatch (Rep lo hi g r) st = rep (rmatch r) (groups r) lo hi g st"

text \<open>The match at one start position: the captures, with the whole match as group 0.\<close>

definition first_match :: "regex \<Rightarrow> string \<Rightarrow> captures option" where
  "first_match r s =
     (case rmatch r (s, Map.empty) of [] \<Rightarrow> None
      | st # _ \<Rightarrow> Some ((snd st)(0 \<mapsto> take (length s - length (fst st)) s)))"

text \<open>\<open>s.match(r)\<close> for a pattern without the global flag: the first start position,
  from the left, at which the pattern matches.\<close>

fun str_match :: "string \<Rightarrow> regex \<Rightarrow> captures option" where
  "str_match [] r = first_match r []"
| "str_match (x # xs) r =
     (case first_match r (x # xs) of Some cs \<Rightarrow> Some cs | None \<Rightarrow> str_match xs r)"

definition lit :: "char \<Rightarrow> regex" where
  "lit c = Cls (\<lambda>x. x = c)"

text \<open>
  Under the flag \<open>i\<close> two code units match when they have the same canonical form,
  the upper-case one. Below U+0100 only \<open>U+00FF\<close> and the micro sign have an upper-case
  form above it; the sharp s has none of one code unit and stays.
\<close>

definition canonicalize :: "char \<Rightarrow> nat" where
  "canonicalize c =
     (if (97 \<le> code c \<and> code c \<le> 122) \<or> (224 \<le> code c \<and> code c \<le> 254 \<and> code c \<noteq> 247)
      then code c - 32
      else if code c = 255 then 376 else if code c = 181 then 924 else code c)"

definition lit_i :: "char \<Rightarrow> regex" where
  "lit_i c = Cls (\<lambda>x. canonicalize x = canonicalize c)"

definition sequence :: "regex list \<Rightarrow> regex" where
  "sequence rs = foldr Seq rs Eps"

definition lits :: "string \<Rightarrow> regex" where
  "lits s = sequence (map lit s)"

definition lits_i :: "string \<Rightarrow> regex" where
  "lits_i s = sequence (map lit_i s)"

definition opt :: "regex \<Rightarrow> regex" where
  "opt r = Rep 0 (Some 1) True r"

definition many :: "regex \<Rightarrow> regex" where
  "many r = Rep 0 None True r"

definition many1 :: "regex \<Rightarrow> regex" where
  "many1 r = Rep 1 None True r"

definition lazy_many :: "regex \<Rightarrow> regex" where
  "lazy_many r = Rep 0 None False r"

text \<open>The dot: any code unit but a line terminator.\<close>

definition any_char :: regex where
  "any_char = Cls (\<lambda>c. code c \<noteq> 10 \<and> code c \<noteq> 13)"

section \<open>String and number conversions\<close>

definition trim :: "string \<Rightarrow> string" where
  "trim s = rev (dropWhile isWhiteSpace (rev (dropWhile isWhiteSpace s)))"

definition padEnd :: "string \<Rightarrow> nat \<Rightarrow> char \<Rightarrow> string" where
  "padEnd s n c = s @ replicate (n - length s) c"

definition digit_value :: "char \<Rightarrow> nat" where
  "digit_value c = code c - 48"

definition decimal :: "string \<Rightarrow> nat" where
  "decimal ds = foldl (\<lambda>acc c. 10 * acc + digit_value c) 0 ds"

text \<open>An optional sign in front of a numeric string: whether it is negative, and the rest.\<close>

definition strip_sign :: "string \<Rightarrow> bool \<times> string" where
  "strip_sign s =
     (case s of [] \<Rightarrow> (False, [])
      | c # cs \<Rightarrow> if c = CHR ''-'' then (True, cs) else if c = CHR ''+'' then (False, cs)
                  else (False, c # cs))"

text \<open>\<open>parseInt(s, 10)\<close>: leading white space, a sign, then the longest run of digits;
  NaN when there is none.\<close>

definition parseInt :: "string \<Rightarrow> number" where
  "parseInt s =
     (let (neg, t) = strip_sign (dropWhile isWhiteSpace s); ds = takeWhile isDigit t
      in if ds = [] then NaN
         else if neg then Num (- of_nat (decimal ds)) else Num (of_nat (decimal ds)))"

text \<open>The exponent part of a decimal literal, 0 when it is absent or incomplete.\<close>

definition exponent_part :: "string \<Rightarrow> int" where
  "exponent_part s =
     (case s of [] \<Rightarrow> 0
      | c # cs \<Rightarrow>
          if c = CHR ''e'' \<or> c = CHR ''E''
          then (let (neg, t) = strip_sign cs; ds = takeWhile isDigit t
                in if ds = [] then 0 else if neg then - int (decimal ds) else int (decimal ds))
          else 0)"

definition scale10 :: "rat \<Rightarrow> int \<Rightarrow> rat" where
  "scale10 x e = (if 0 \<le> e then x * 10 ^ nat e else x / 10 ^ nat (- e))"

text \<open>\<open>parseFloat(s)\<close>: leading white space, then the longest prefix that is a decimal
  literal (sign, \<open>Infinity\<close>, digits, fraction, exponent); NaN when there is none.\<close>

definition parseFloat :: "string \<Rightarrow> number" where
  "parseFloat s =
     (let (neg, t) = strip_sign (dropWhile isWhiteSpace s)
      in if startsWith t ''Infinity'' then (if neg then NegInf else PosInf)
         else let ip = takeWhile isDigit t; r = dropWhile isDigit t;
                  dot = startsWith r ''.'';
                  fp = (if dot then takeWhile isDigit (tl r) else []);
                  r' = (if dot then dropWhile isDigit (tl r) else r)
              in if ip = [] \<and> fp = [] then NaN
                 else let v = scale10 (of_nat (decimal ip) + of_nat (decimal fp) / 10 ^ length fp)
                                (exponent_part r')
                      in Num (if neg then - v else v))"

text \<open>\<open>x || d\<close> for a string that may be null or undefined.\<close>

definition or_default :: "string option \<Rightarrow> string \<Rightarrow> string" where
  "or_default x d = (case x of None \<Rightarrow> d | Some s \<Rightarrow> if s = [] then d else s)"

text \<open>\<open>x || undefined\<close>.\<close>

definition or_undefined :: "string option \<Rightarrow> string option" where
  "or_undefined x = (case x of None \<Rightarrow> None | Some s \<Rightarrow> if s = [] then None else Some s)"

text \<open>The string a capture group converts to: \<open>"undefined"\<close> when it took no part.\<close>

definition group_string :: "string option \<Rightarrow> string" where
  "group_string g = (case g of None \<Rightarrow> ''undefined'' | Some s \<Rightarrow> s)"

section \<open>The page\<close>

text \<open>
  The document tree, the page's origin and the URL constructor belong to the browser.
  An element is what the code can ask of it. The calls \<open>querySelector\<close> and
  \<open>querySelectorAll\<close> can throw (for a selector that is not valid) and so can
  \<open>new URL\<close> (for a string that is no URL), which is the left summand; reading
  \<open>textContent\<close> or an attribute cannot.
\<close>

datatype js_error = SyntaxError | TypeError

datatype element =
  Element (querySelector: "string \<Rightarrow> js_error + element option")
          (textContent: "string option")
          (getAttribute: "string \<Rightarrow> string option")

record page =
  querySelectorAll :: "string \<Rightarrow> js_error + element list"
  location_origin :: string
  URL_href :: "string \<Rightarrow> string \<Rightarrow> js_error + string"

definition bind_result :: "'e + 'a \<Rightarrow> ('a \<Rightarrow> 'e + 'b) \<Rightarrow> 'e + 'b" where
  "bind_result m f = (case m of Inl e \<Rightarrow> Inl e | Inr x \<Rightarrow> f x)"

section \<open>findWalmartSearchResultElements\<close>

definition selectors :: "string list" where
  "selectors =
     [''[data-item-id]'',
      ''[data-product-id]'',
      ''.search-result-gridview-item'',
      ''.product.product-search-result.search-result-gridview-item'',
      ''.sans-serif.relative.pb3.pt2.ph3.w-100'']"

text \<open>The loop over the selectors, inside the \<open>try\<close>.\<close>

fun find_loop :: "page \<Rightarrow> string list \<Rightarrow> js_error + element list" where
  "find_loop pg [] = Inr []"
| "find_loop pg (selector # rest) =
     bind_result (querySelectorAll pg selector)
       (\<lambda>results. if length results > 0 then Inr results else find_loop pg rest)"

definition findWalmartSearchResultElements :: "page \<Rightarrow> element list" where
  "findWalmartSearchResultElements pg =
     (case find_loop pg selectors of Inl error \<Rightarrow> [] | Inr results \<Rightarrow> results)"

section \<open>extractWalmartSearchResult\<close>

record rating_info =
  average :: "number option"
  count :: "number option"

text \<open>The record that is returned. Its field \<open>image\<close> is \<open>imageUrl\<close> here, the
  name of the variable it is filled from.\<close>

record product =
  title :: string
  price :: number
  imageUrl :: "string option"
  url :: string
  marketplace :: string
  item_id :: "string option"
  ratings :: rating_info

definition title_selector :: string where
  "title_selector = ''[data-automation-id=\"product-title\"], .sans-serif.mid-gray, .w_iUH, .lh-title''"

definition price_selector :: string where
  "price_selector = ''[data-automation-id=\"product-price\"], .b.black.f1.mr1, .w_iUH''"

definition whole_dollar_selector :: string where
  "whole_dollar_selector = ''.w_C6.w_D.w_C7.w_Da''"

definition cents_selector :: string where
  "cents_selector = ''.w_C6.w_D.w_C7.w_Db''"

definition link_selector :: string where
  "link_selector = ''a[link-identifier=\"linkTest\"], a.absolute.w-100.h-100, .sans-serif.w_iUH a''"

definition image_selector :: string where
  "image_selector = ''img[data-automation-id=\"product-image\"], img.absolute, img.w_iUF''"

definition rating_selector :: string where
  "rating_selector = ''.stars-container, [data-automation-id=\"product-stars\"]''"

definition review_count_selector :: string where
  "review_count_selector = ''.stars-reviews-count, [data-automation-id=\"product-reviews\"]''"

text \<open>\<open>/current\s+price\s+\$?(\d+)\.?(\d{0,2})/i\<close>; the flag changes nothing for
  the dollar sign, the dot and the two classes, which have no other letter case.\<close>

definition current_price_pattern :: regex where
  "current_price_pattern =
     sequence [lits_i ''current'', many1 (Cls isWhiteSpace), lits_i ''price'',
       many1 (Cls isWhiteSpace), opt (lit CHR ''$''), Grp 1 (many1 (Cls isDigit)),
       opt (lit CHR ''.''), Grp 2 (Rep 0 (Some 2) True (Cls isDigit))]"

text \<open>\<open>/\$?(\d+)(?:\.(\d{1,2}))?/\<close>\<close>

definition standard_price_pattern :: regex where
  "standard_price_pattern =
     sequence [opt (lit CHR ''$''), Grp 1 (many1 (Cls isDigit)),
       opt (sequence [lit CHR ''.'', Grp 2 (Rep 1 (Some 2) True (Cls isDigit))])]"

text \<open>The identifier patterns: \<open>/\/ip\/(?:.*?)\/(\d+)/\<close> (a title slug, then the
  identifier), \<open>/\/ip\/(\d+)/\<close> (the identifier directly) and \<open>/\/(\d+)(?:\?|\&|$)/\<close>
  (a numeric path segment before the query or the end).\<close>

definition slug_id_pattern :: regex where
  "slug_id_pattern =
     sequence [lits ''/ip/'', lazy_many any_char, lit CHR ''/'', Grp 1 (many1 (Cls isDigit))]"

definition direct_id_pattern :: regex where
  "direct_id_pattern = sequence [lits ''/ip/'', Grp 1 (many1 (Cls isDigit))]"

definition segment_id_pattern :: regex where
  "segment_id_pattern =
     sequence [lit CHR ''/'', Grp 1 (many1 (Cls isDigit)),
               Alt (lit CHR ''?'') (Alt (lit CHR ''&'') Eol)]"

definition idPatterns :: "regex list" where
  "idPatterns = [slug_id_pattern, direct_id_pattern, segment_id_pattern]"

text \<open>\<open>/width:?\s*(\d+(?:\.\d+)?)%/\<close>\<close>

definition width_pattern :: regex where
  "width_pattern =
     sequence [lits ''width'', opt (lit CHR '':''), many (Cls isWhiteSpace),
       Grp 1 (sequence [many1 (Cls isDigit), opt (sequence [lit CHR ''.'', many1 (Cls isDigit)])]),
       lit CHR ''%'']"

text \<open>\<open>/(\d+(?:\.\d+)?)/\<close>\<close>

definition rating_pattern :: regex where
  "rating_pattern =
     Grp 1 (sequence [many1 (Cls isDigit), opt (sequence [lit CHR ''.'', many1 (Cls isDigit)])])"

text \<open>\<open>/(\d+(?:,\d+)*)/\<close>\<close>

definition count_pattern :: regex where
  "count_pattern =
     Grp 1 (sequence [many1 (Cls isDigit), many (sequence [lit CHR '','', many1 (Cls isDigit)])])"

text \<open>Lines 46 to 47: the title, trimmed, or the empty string.\<close>

definition extract_title :: "element \<Rightarrow> js_error + string" where
  "extract_title element =
     bind_result (querySelector element title_selector)
       (\<lambda>titleElement.
          Inr (case titleElement of None \<Rightarrow> []
               | Some t \<Rightarrow> (case textContent t of None \<Rightarrow> []
                           | Some text \<Rightarrow> trim text)))"

text \<open>Lines 66 to 69 and 76 to 78: dollars and cents from the two groups of a match.\<close>

definition price_of_match :: "captures \<Rightarrow> number" where
  "price_of_match matches =
     (let dollars = parseInt (group_string (matches 1));
          cents = (case or_undefined (matches 2) of None \<Rightarrow> Num 0
                   | Some c \<Rightarrow> parseInt (padEnd c 2 CHR ''0''))
      in num_add dollars (num_div cents (Num 100)))"

text \<open>Lines 62 to 81: the price read from the text of the price element.\<close>

definition parse_price_text :: "string \<Rightarrow> number option" where
  "parse_price_text priceText =
     (if str_includes priceText ''current price''
      then map_option price_of_match (str_match priceText current_price_pattern)
      else map_option price_of_match (str_match priceText standard_price_pattern))"

text \<open>\<open>price === null || isNaN(price)\<close>\<close>

definition no_price :: "number option \<Rightarrow> bool" where
  "no_price p = (case p of None \<Rightarrow> True | Some x \<Rightarrow> isNaN x)"

text \<open>\<open>e.textContent?.replace(/[^\d]/g, '') || d\<close>\<close>

definition digits_or :: "element \<Rightarrow> string \<Rightarrow> string" where
  "digits_or e d = or_default (map_option (filter isDigit) (textContent e)) d"

text \<open>Lines 55 to 96: the price, from the price element or from the split elements.\<close>

definition extract_price :: "element \<Rightarrow> js_error + number option" where
  "extract_price element =
     bind_result (querySelector element price_selector)
       (\<lambda>priceElement.
          let price = (case priceElement of None \<Rightarrow> None
                       | Some pe \<Rightarrow> parse_price_text (or_default (textContent pe) []))
          in if no_price price
             then bind_result (querySelector element whole_dollar_selector)
               (\<lambda>wholeDollarElement.
                  bind_result (querySelector element cents_selector)
                    (\<lambda>centsElement.
                       Inr (case (wholeDollarElement, centsElement) of
                              (Some w, Some c) \<Rightarrow>
                                 Some (parseFloat (digits_or w ''0'' @ ''.'' @ digits_or c ''00''))
                            | _ \<Rightarrow> price)))
             else Inr price)"

text \<open>Lines 104 to 106: the link, resolved against the origin of the page.\<close>

definition extract_url :: "page \<Rightarrow> element \<Rightarrow> js_error + string" where
  "extract_url pg element =
     bind_result (querySelector element link_selector)
       (\<lambda>linkElement.
          let relativeUrl = (case linkElement of None \<Rightarrow> []
                             | Some l \<Rightarrow> or_default (getAttribute l ''href'') [])
          in if relativeUrl \<noteq> [] then URL_href pg relativeUrl (location_origin pg) else Inr [])"

text \<open>Lines 123 to 129: the first pattern that matches with a non-empty group 1.\<close>

fun first_id :: "regex list \<Rightarrow> string \<Rightarrow> string option" where
  "first_id [] u = None"
| "first_id (pattern # rest) u =
     (case str_match u pattern of None \<Rightarrow> first_id rest u
      | Some m \<Rightarrow> (case or_undefined (m 1) of None \<Rightarrow> first_id rest u | Some g \<Rightarrow> Some g))"

text \<open>Lines 114 to 136: the identifier, from the URL or else from the data attributes.\<close>

definition extract_item_id :: "element \<Rightarrow> string \<Rightarrow> string option" where
  "extract_item_id element u =
     (if u = [] then None
      else case first_id idPatterns u of Some productId \<Rightarrow> Some productId
           | None \<Rightarrow>
               (case or_undefined (getAttribute element ''data-item-id'') of Some a \<Rightarrow> Some a
                | None \<Rightarrow> or_undefined (getAttribute element ''data-product-id'')))"

text \<open>Lines 139 to 140.\<close>

definition extract_image :: "element \<Rightarrow> js_error + string option" where
  "extract_image element =
     bind_result (querySelector element image_selector)
       (\<lambda>imgElement.
          Inr (case imgElement of None \<Rightarrow> None
               | Some i \<Rightarrow> or_undefined (getAttribute i ''src'')))"

text \<open>Lines 146 to 163: the rating of a rating element.\<close>

definition truthy :: "string option \<Rightarrow> bool" where
  "truthy x = (or_undefined x \<noteq> None)"

definition rating_of :: "element \<Rightarrow> number option" where
  "rating_of ratingElement =
     (let styleWidth = getAttribute ratingElement ''style''
      in if truthy styleWidth \<and> str_includes (or_default styleWidth []) ''width''
         then (case str_match (or_default styleWidth []) width_pattern of None \<Rightarrow> None
               | Some widthMatch \<Rightarrow>
                   map_option (\<lambda>w. num_mul (num_div (parseFloat w) (Num 100)) (Num 5))
                     (or_undefined (widthMatch 1)))
         else (case str_match (or_default (textContent ratingElement) []) rating_pattern of
                 None \<Rightarrow> None
               | Some ratingMatch \<Rightarrow> map_option parseFloat (or_undefined (ratingMatch 1))))"

definition extract_rating :: "element \<Rightarrow> js_error + number option" where
  "extract_rating element =
     bind_result (querySelector element rating_selector)
       (\<lambda>ratingElement.
          Inr (case ratingElement of None \<Rightarrow> None | Some re \<Rightarrow> rating_of re))"

text \<open>Lines 166 to 175.\<close>

definition extract_review_count :: "element \<Rightarrow> js_error + number option" where
  "extract_review_count element =
     bind_result (querySelector element review_count_selector)
       (\<lambda>reviewCountElement.
          Inr (case reviewCountElement of None \<Rightarrow> None
               | Some rc \<Rightarrow>
                   (case str_match (or_default (textContent rc) []) count_pattern of
                      None \<Rightarrow> None
                    | Some m \<Rightarrow>
                        map_option (\<lambda>g. parseInt (filter (\<lambda>c. c \<noteq> CHR '','') g))
                          (or_undefined (m 1)))))"

text \<open>The body of the \<open>try\<close>: \<open>Inl\<close> is a thrown error, \<open>Inr None\<close> a returned null.\<close>

definition extract_body :: "page \<Rightarrow> element \<Rightarrow> js_error + product option" where
  "extract_body pg element =
     bind_result (extract_title element)
       (\<lambda>t. if t = [] then Inr None
            else bind_result (extract_price element)
              (\<lambda>p. case p of None \<Rightarrow> Inr None
                    | Some pr \<Rightarrow>
                        if isNaN pr then Inr None
                        else bind_result (extract_url pg element)
                          (\<lambda>u. if u = [] then Inr None
                               else bind_result (extract_image element)
                                 (\<lambda>img. bind_result (extract_rating element)
                                    (\<lambda>rating. bind_result (extract_review_count element)
                                       (\<lambda>reviewCount.
                                          Inr (Some \<lparr>title = t, price = pr, imageUrl = img,
                                                 url = u, marketplace = ''walmart'',
                                                 item_id = extract_item_id element u,
                                                 ratings = \<lparr>average = rating,
                                                            count = reviewCount\<rparr>\<rparr>)))))))"

definition extractWalmartSearchResult :: "page \<Rightarrow> element \<Rightarrow> product option" where
  "extractWalmartSearchResult pg element =
     (case extract_body pg element of Inl error \<Rightarrow> None | Inr result \<Rightarrow> result)"

section \<open>Notions used in the statements and proofs\<close>

text \<open>The first way a pattern matches from a state, if any.\<close>

definition first :: "regex \<Rightarrow> mstate \<Rightarrow> mstate option" where
  "first r st = (case rmatch r st of [] \<Rightarrow> None | x # _ \<Rightarrow> Some x)"












text \<open>An attribute selector starts with a bracket, a class selector with a dot.\<close>

definition is_attribute_selector :: "string \<Rightarrow> bool" where
  "is_attribute_selector s = startsWith s ''[''"

definition is_class_selector :: "string \<Rightarrow> bool" where
  "is_class_selector s = startsWith s ''.''"




section \<open>Example pages and elements\<close>

text \<open>An element without descendants or attributes, with the given text.\<close>

definition leaf :: "string \<Rightarrow> element" where
  "leaf t = Element (\<lambda>_. Inr None) (Some t) (\<lambda>_. None)"

text \<open>An element without descendants or text, with one attribute.\<close>

definition with_attribute :: "string \<Rightarrow> string \<Rightarrow> element" where
  "with_attribute name v =
     Element (\<lambda>_. Inr None) (Some []) (\<lambda>a. if a = name then Some v else None)"

text \<open>
  A page of \<open>www.walmart.com\<close> on which an attribute selector and a class selector
  both find elements. Its URL constructor resolves a path against the origin and, as
  the real one does for a string that is no URL, throws for \<open>//\<close>.
\<close>

definition walmart_page :: page where
  "walmart_page =
     \<lparr>querySelectorAll =
        (\<lambda>s. if s = ''[data-product-id]'' then Inr [leaf ''A'']
             else if s = ''.search-result-gridview-item'' then Inr [leaf ''B'', leaf ''C'']
             else Inr []),
      location_origin = ''https://www.walmart.com'',
      URL_href = (\<lambda>rel base. if rel = ''//'' then Inl TypeError else Inr (base @ rel))\<rparr>"

text \<open>A search result with a title, a price text and a link, and nothing else.\<close>

definition listing :: "string \<Rightarrow> string \<Rightarrow> string \<Rightarrow> element" where
  "listing t p href =
     Element (\<lambda>s. if s = title_selector then Inr (Some (leaf t))
                  else if s = price_selector then Inr (Some (leaf p))
                  else if s = link_selector then Inr (Some (with_attribute ''href'' href))
                  else Inr None)
       (Some (t @ p)) (\<lambda>_. None)"

text \<open>A search result whose price is split into two elements, with no price element.\<close>

definition split_listing :: "string \<Rightarrow> string \<Rightarrow> string \<Rightarrow> string \<Rightarrow> element" where
  "split_listing t w c href =
     Element (\<lambda>s. if s = title_selector then Inr (Some (leaf t))
                  else if s = whole_dollar_selector then Inr (Some (leaf w))
                  else if s = cents_selector then Inr (Some (leaf c))
                  else if s = link_selector then Inr (Some (with_attribute ''href'' href))
                  else Inr None)
       (Some (t @ w @ c)) (\<lambda>_. None)"


section \<open>Evaluation rules\<close>

lemmas char_eval = code_def isWhiteSpace_def isDigit_def

lemmas selector_eval = title_selector_def price_selector_def whole_dollar_selector_def
  cents_selector_def link_selector_def image_selector_def rating_selector_def
  review_count_selector_def

lemmas regex_eval = rmatch.simps lit_def lit_i_def canonicalize_def sequence_def lits_def
  lits_i_def opt_def many_def many1_def lazy_many_def any_char_def clear_def first_match_def
  rep.simps

lemmas pattern_eval = current_price_pattern_def standard_price_pattern_def idPatterns_def
  slug_id_pattern_def direct_id_pattern_def segment_id_pattern_def
  width_pattern_def rating_pattern_def count_pattern_def

lemmas conversion_eval = trim_def padEnd_def digit_value_def decimal_def strip_sign_def
  parseInt_def exponent_part_def scale10_def parseFloat_def or_default_def or_undefined_def
  group_string_def truthy_def

section \<open>Facts about the matcher and the conversions\<close>



declare rmatch.simps [simp del]

lemma clear_Nil [simp]: "clear [] cs = cs"
  by (simp add: clear_def)

lemma rmatch_Cls_Nil [simp]: "rmatch (Cls p) ([], cs) = []"
  by (simp add: rmatch.simps)

lemma rmatch_Cls_Cons [simp]: "rmatch (Cls p) (x # xs, cs) = (if p x then [(xs, cs)] else [])"
  by (simp add: rmatch.simps)





















lemma digit_facts:
  "isDigit c \<Longrightarrow> \<not> isWhiteSpace c" "isDigit c \<Longrightarrow> c \<noteq> CHR ''-''" "isDigit c \<Longrightarrow> c \<noteq> CHR ''+''"
  "isDigit c \<Longrightarrow> c \<noteq> CHR ''.''" "isDigit c \<Longrightarrow> c \<noteq> CHR ''$''" "isDigit c \<Longrightarrow> c \<noteq> CHR ''I''"
  by (auto simp: isDigit_def isWhiteSpace_def code_def)




























lemma startsWith_append [simp]: "startsWith (t @ b) t"
  by (induction t) simp_all





lemma digit_zero: "isDigit CHR ''0''" "digit_value CHR ''0'' = 0"
  by (simp_all add: isDigit_def digit_value_def code_def)









section \<open>The model on known values\<close>

text \<open>What the language gives for these inputs, as a check of the definitions above.\<close>

lemma split_ws_values:
  "split_ws ''a  b'' = [''a'', ''b'']"
  "split_ws '' a'' = ['''', ''a'']"
  "split_ws ''a '' = [''a'', '''']"
  "split_ws '''' = ['''']"
  by (simp_all add: char_eval)

lemma normalize_value: "normalize ''Apple iPhone-13 (Case)!'' = ''apple iphone13 case''"
  by (simp add: normalize_def toLowerCase_def toLowerCase_char_def isUpperCase_def
      isWordChar_def char_eval)

lemma str_includes_values:
  "str_includes ''iphones'' ''phone''" "\<not> str_includes ''phone'' ''iphones''"
  "str_includes ''abc'' ''''" "str_includes '''' ''''"
  by simp_all

lemma trim_value: "trim ''  Some Title  '' = ''Some Title''"
  by (simp add: trim_def char_eval)

lemma parseInt_values:
  "parseInt ''42'' = Num 42" "parseInt ''  -7px'' = Num (- 7)" "parseInt ''px'' = NaN"
  "parseInt ''undefined'' = NaN" "parseInt '''' = NaN"
  by (simp_all add: conversion_eval char_eval)

lemma parseFloat_values:
  "parseFloat ''12.99'' = Num (1299 / 100)" "parseFloat ''0.00'' = Num 0"
  "parseFloat ''4.5 stars'' = Num (9 / 2)" "parseFloat ''.5'' = Num (1 / 2)"
  "parseFloat ''5.'' = Num 5" "parseFloat ''1e3'' = Num 1000" "parseFloat ''-2.5e-1'' = Num (- 1 / 4)"
  "parseFloat ''Infinity'' = PosInf" "parseFloat ''.'' = NaN" "parseFloat ''stars'' = NaN"
  by (simp_all add: conversion_eval char_eval)

lemma price_pattern_values:
  "map_option (\<lambda>m. (m 0, m 1, m 2)) (str_match ''Now $12.345 each'' standard_price_pattern)
     = Some (Some ''$12.34'', Some ''12'', Some ''34'')"
  "map_option (\<lambda>m. (m 0, m 1, m 2)) (str_match ''From 7'' standard_price_pattern)
     = Some (Some ''7'', Some ''7'', None)"
  "str_match ''free'' standard_price_pattern = None"
  "map_option (\<lambda>m. (m 0, m 1, m 2)) (str_match ''CURRENT  Price 8.5'' current_price_pattern)
     = Some (Some ''CURRENT  Price 8.5'', Some ''8'', Some ''5'')"
  "map_option (\<lambda>m. (m 0, m 1, m 2)) (str_match ''current price $1,299.00'' current_price_pattern)
     = Some (Some ''current price $1'', Some ''1'', Some '''')"
  "str_match ''current price: $5'' current_price_pattern = None"
  by (simp_all add: pattern_eval regex_eval char_eval)

lemma other_pattern_values:
  "map_option (\<lambda>m. m 1) (str_match ''max-width:80.5%;'' width_pattern) = Some (Some ''80.5'')"
  "map_option (\<lambda>m. m 1) (str_match ''4.7 out of 5'' rating_pattern) = Some (Some ''4.7'')"
  "map_option (\<lambda>m. m 1) (str_match ''(1,234 reviews)'' count_pattern) = Some (Some ''1,234'')"
  "map_option (\<lambda>m. m 1) (str_match ''/ip/12345?x=1'' direct_id_pattern) = Some (Some ''12345'')"
  "map_option (\<lambda>m. m 1) (str_match ''/p/777&a'' segment_id_pattern) = Some (Some ''777'')"
  "str_match ''/ip/12345'' slug_id_pattern = None"
  by (simp_all add: pattern_eval regex_eval char_eval)

text \<open>A quantifier gives up what the rest of the pattern needs: \<open>/a*ab/\<close> on
  \<open>aaab\<close>, and the lazy \<open>/a*?(a+)/\<close>.\<close>

lemma backtracking_values:
  "map_option (\<lambda>m. m 0)
     (str_match ''aaab'' (sequence [many (lit CHR ''a''), lit CHR ''a'', lit CHR ''b'']))
     = Some (Some ''aaab'')"
  "map_option (\<lambda>m. (m 0, m 1))
     (str_match ''aaab'' (sequence [lazy_many (lit CHR ''a''), Grp 1 (many1 (lit CHR ''a''))]))
     = Some (Some ''aaa'', Some ''aaa'')"
  "map_option (\<lambda>m. (m 0, m 1))
     (str_match ''ab'' (many (Alt (Grp 1 (lit CHR ''a'')) (lit CHR ''b''))))
     = Some (Some ''ab'', None)"
  by (simp_all add: regex_eval)

text \<open>The examples of the specification: two titles that share some words, the
  split price 12 and 99, and the style \<open>width: 80%\<close>.\<close>

lemma similarity_value:
  "calculateWalmartTitleSimilarity ''Apple iPhone 13 Case'' ''iPhone 13 Protective Case Cover''
     = Num (1 / 2)"
  "calculateWalmartTitleSimilarity ''Apple iPhone 13 Case'' ''Samsung Galaxy Charger'' = Num 0"
  "calculateWalmartTitleSimilarity '''' ''iPhone'' = Num 0"
  by (simp_all add: calculateWalmartTitleSimilarity_def normalize_def title_words_def
      matchCount_def toLowerCase_def toLowerCase_char_def isUpperCase_def isWordChar_def char_eval)

lemma split_price_value:
  "map_option price (extractWalmartSearchResult walmart_page
      (split_listing ''Some Title'' ''$12'' ''99'' ''/ip/Some-Title/123456''))
     = Some (Num (1299 / 100))"
proof -
  have "extract_price (split_listing ''Some Title'' ''$12'' ''99'' ''/ip/Some-Title/123456'')
      = Inr (Some (Num (1299 / 100)))"
    by (simp add: extract_price_def bind_result_def split_listing_def leaf_def selector_eval
        no_price_def digits_or_def conversion_eval char_eval)
  then show ?thesis
    by (simp add: extractWalmartSearchResult_def extract_body_def extract_title_def
        extract_url_def extract_image_def extract_rating_def extract_review_count_def
        bind_result_def isNaN_def split_listing_def leaf_def with_attribute_def selector_eval
        trim_def or_default_def walmart_page_def char_eval)
qed

lemma width_80_value: "rating_of (with_attribute ''style'' ''width: 80%'') = Some (Num 4)"
  by (simp add: rating_of_def with_attribute_def pattern_eval regex_eval conversion_eval
      char_eval)

section \<open>The similarity score\<close>

lemma matchCount_le: "matchCount ws1 ws2 \<le> length ws1"
  by (simp add: matchCount_def)

lemma matchCount_zero_iff:
  "matchCount ws1 ws2 = 0 \<longleftrightarrow>
     (\<forall>a \<in> set ws1. \<forall>b \<in> set ws2. \<not> (str_includes b a \<or> str_includes a b))"
  by (auto simp: matchCount_def filter_empty_conv list_ex_iff)

lemma matchCount_zero_swap: "matchCount ws1 ws2 = 0 \<longleftrightarrow> matchCount ws2 ws1 = 0"
  unfolding matchCount_zero_iff by blast

text \<open>
  The score is NaN exactly when both titles are non-empty and neither has a word of
  more than two characters. In every other case it is a number between 0 and 1, and it
  is 0 when a title is empty.
\<close>

lemma similarity_range:
  "calculateWalmartTitleSimilarity t1 t2 = NaN \<longleftrightarrow>
     (t1 \<noteq> [] \<and> t2 \<noteq> [] \<and> title_words t1 = [] \<and> title_words t2 = [])"
  "calculateWalmartTitleSimilarity t1 t2 \<noteq> NaN \<Longrightarrow>
     \<exists>q. calculateWalmartTitleSimilarity t1 t2 = Num q \<and> 0 \<le> q \<and> q \<le> 1"
  "t1 = [] \<or> t2 = [] \<Longrightarrow> calculateWalmartTitleSimilarity t1 t2 = Num 0"
proof -
  let ?m = "matchCount (title_words t1) (title_words t2)"
  let ?d = "max (length (title_words t1)) (length (title_words t2))"
  have le: "?m \<le> ?d"
    using matchCount_le [of "title_words t1" "title_words t2"] by simp
  have zero: "?d = 0 \<Longrightarrow> ?m = 0"
    using le by simp
  show "calculateWalmartTitleSimilarity t1 t2 = NaN \<longleftrightarrow>
     (t1 \<noteq> [] \<and> t2 \<noteq> [] \<and> title_words t1 = [] \<and> title_words t2 = [])"
    using zero by (auto simp: calculateWalmartTitleSimilarity_def Let_def matchCount_def)
  show "t1 = [] \<or> t2 = [] \<Longrightarrow> calculateWalmartTitleSimilarity t1 t2 = Num 0"
    by (auto simp: calculateWalmartTitleSimilarity_def)
  show "calculateWalmartTitleSimilarity t1 t2 \<noteq> NaN \<Longrightarrow>
     \<exists>q. calculateWalmartTitleSimilarity t1 t2 = Num q \<and> 0 \<le> q \<and> q \<le> 1"
  proof (cases "t1 = [] \<or> t2 = []")
    case True
    then show ?thesis by (auto simp: calculateWalmartTitleSimilarity_def)
  next
    case False
    assume nn: "calculateWalmartTitleSimilarity t1 t2 \<noteq> NaN"
    have pos: "0 < ?d"
    proof (rule ccontr)
      assume "\<not> 0 < ?d"
      then have "?d = 0" "?m = 0" using zero by simp_all
      then have "calculateWalmartTitleSimilarity t1 t2 = NaN"
        using False by (simp add: calculateWalmartTitleSimilarity_def Let_def)
      with nn show False by simp
    qed
    have "(of_nat ?m :: rat) \<le> of_nat ?d"
      using le by (simp only: of_nat_le_iff)
    with pos have "(of_nat ?m :: rat) / of_nat ?d \<le> 1"
      by (simp add: divide_le_eq_1)
    moreover have "(0::rat) \<le> of_nat ?m / of_nat ?d"
      by simp
    moreover have "calculateWalmartTitleSimilarity t1 t2 = Num (of_nat ?m / of_nat ?d)"
      using False pos by (auto simp: calculateWalmartTitleSimilarity_def Let_def)
    ultimately show ?thesis by blast
  qed
qed

text \<open>
  C1 (the documented range of the score). The function's comment promises a score
  between 0 and 1 and its first line returns 0 for an empty title, but two non-empty
  titles whose words all have at most two characters leave both word lists empty, and
  the final division is \<open>0 / 0\<close>: the result is NaN, which is not in the interval [0,1].
\<close>

theorem similarity_short_words_is_NaN:
  "calculateWalmartTitleSimilarity ''TV'' ''4K TV'' = NaN"
  by (simp add: calculateWalmartTitleSimilarity_def char_eval isWordChar_def isUpperCase_def toLowerCase_char_def
      toLowerCase_def normalize_def title_words_def matchCount_def)

text \<open>
  C2 (symmetry), as stated: the score of \<open>(a, b)\<close> equals the score of \<open>(b, a)\<close>.
  It fails: only the words of the first title are counted. The title "phone" has one
  word, contained in both words of "phone phones": one match out of two one way, two
  out of two the other way.
\<close>

theorem similarity_not_symmetric:
  "calculateWalmartTitleSimilarity ''phone'' ''phone phones''
     \<noteq> calculateWalmartTitleSimilarity ''phone phones'' ''phone''"
  by (simp add: calculateWalmartTitleSimilarity_def char_eval isWordChar_def isUpperCase_def toLowerCase_char_def
      toLowerCase_def normalize_def title_words_def matchCount_def)

text \<open>
  C2, amended: when both titles are non-empty and at least one has a word of more than
  two characters, the two scores are \<open>m(a,b) / M\<close> and \<open>m(b,a) / M\<close> with the same
  denominator \<open>M\<close>, the larger word count, where \<open>m(x,y)\<close> counts the words of \<open>x\<close>
  that contain or are contained in a word of \<open>y\<close>. So the scores are equal exactly
  when \<open>m(a,b) = m(b,a)\<close>, and one is 0 exactly when the other is.
\<close>

theorem similarity_swap:
  assumes "a \<noteq> []" and "b \<noteq> []"
    and "title_words a \<noteq> [] \<or> title_words b \<noteq> []"
  shows "calculateWalmartTitleSimilarity a b =
           Num (of_nat (matchCount (title_words a) (title_words b))
                / of_nat (max (length (title_words a)) (length (title_words b))))
       \<and> calculateWalmartTitleSimilarity b a =
           Num (of_nat (matchCount (title_words b) (title_words a))
                / of_nat (max (length (title_words a)) (length (title_words b))))
       \<and> (calculateWalmartTitleSimilarity a b = calculateWalmartTitleSimilarity b a
            \<longleftrightarrow> matchCount (title_words a) (title_words b)
                = matchCount (title_words b) (title_words a))
       \<and> (calculateWalmartTitleSimilarity a b = Num 0
            \<longleftrightarrow> calculateWalmartTitleSimilarity b a = Num 0)"
proof -
  let ?d = "max (length (title_words a)) (length (title_words b))"
  have pos: "0 < ?d"
    using assms(3) by (cases "title_words a"; cases "title_words b") auto
  have ab: "calculateWalmartTitleSimilarity a b =
      Num (of_nat (matchCount (title_words a) (title_words b)) / of_nat ?d)"
    using assms(1,2) pos by (auto simp: calculateWalmartTitleSimilarity_def Let_def)
  have ba: "calculateWalmartTitleSimilarity b a =
      Num (of_nat (matchCount (title_words b) (title_words a)) / of_nat ?d)"
    using assms(1,2) pos
    by (auto simp: calculateWalmartTitleSimilarity_def Let_def max.commute)
  have eq: "calculateWalmartTitleSimilarity a b = calculateWalmartTitleSimilarity b a
      \<longleftrightarrow> matchCount (title_words a) (title_words b)
          = matchCount (title_words b) (title_words a)"
    using pos assms(3) by (auto simp: ab ba)
  have zero: "calculateWalmartTitleSimilarity a b = Num 0
      \<longleftrightarrow> calculateWalmartTitleSimilarity b a = Num 0"
    using pos assms(3) matchCount_zero_swap [of "title_words a" "title_words b"]
    by (auto simp: ab ba)
  show ?thesis
    using ab ba eq zero by blast
qed

theorem similarity_swap_witness:
  "calculateWalmartTitleSimilarity ''phone'' ''phone phones'' = Num (1 / 2)
   \<and> calculateWalmartTitleSimilarity ''phone phones'' ''phone'' = Num 1"
  using similarity_swap [of "''phone''" "''phone phones''"]
  by (simp add: char_eval isWordChar_def isUpperCase_def toLowerCase_char_def
      toLowerCase_def normalize_def title_words_def matchCount_def)

section \<open>The price parser\<close>





section \<open>Locating the search results\<close>

lemma find_loop_first:
  "k < length sels \<Longrightarrow> \<forall>j<k. querySelectorAll pg (sels ! j) = Inr [] \<Longrightarrow>
   querySelectorAll pg (sels ! k) = Inr r \<Longrightarrow> r \<noteq> [] \<Longrightarrow> find_loop pg sels = Inr r"
proof (induction sels arbitrary: k)
  case Nil
  then show ?case by simp
next
  case (Cons s sels)
  show ?case
  proof (cases k)
    case 0
    with Cons.prems show ?thesis by (simp add: bind_result_def)
  next
    case (Suc k')
    from Cons.prems Suc have first: "querySelectorAll pg s = Inr []"
      by auto
    have "find_loop pg sels = Inr r"
    proof (rule Cons.IH [of k'])
      show "k' < length sels" using Cons.prems Suc by simp
      show "\<forall>j<k'. querySelectorAll pg (sels ! j) = Inr []"
        using Cons.prems(2) Suc by auto
      show "querySelectorAll pg (sels ! k') = Inr r" using Cons.prems(3) Suc by simp
      show "r \<noteq> []" by (rule Cons.prems(4))
    qed
    with first show ?thesis by (simp add: bind_result_def)
  qed
qed

lemma find_loop_none:
  "\<forall>s \<in> set sels. querySelectorAll pg s = Inr [] \<Longrightarrow> find_loop pg sels = Inr []"
  by (induction sels) (simp_all add: bind_result_def)

lemma find_loop_throws:
  "k < length sels \<Longrightarrow> \<forall>j<k. querySelectorAll pg (sels ! j) = Inr [] \<Longrightarrow>
   querySelectorAll pg (sels ! k) = Inl e \<Longrightarrow> find_loop pg sels = Inl e"
proof (induction sels arbitrary: k)
  case Nil
  then show ?case by simp
next
  case (Cons s sels)
  show ?case
  proof (cases k)
    case 0
    with Cons.prems show ?thesis by (simp add: bind_result_def)
  next
    case (Suc k')
    from Cons.prems Suc have first: "querySelectorAll pg s = Inr []"
      by auto
    have "find_loop pg sels = Inl e"
    proof (rule Cons.IH [of k'])
      show "k' < length sels" using Cons.prems Suc by simp
      show "\<forall>j<k'. querySelectorAll pg (sels ! j) = Inr []"
        using Cons.prems(2) Suc by auto
      show "querySelectorAll pg (sels ! k') = Inl e" using Cons.prems(3) Suc by simp
    qed
    with first show ?thesis by (simp add: bind_result_def)
  qed
qed

text \<open>
  C5 (first strategy with a match wins). If the strategies before the \<open>k\<close>-th find
  nothing and the \<open>k\<close>-th finds the non-empty sequence \<open>r\<close>, the result is exactly
  \<open>r\<close>; if every strategy finds nothing, the result is empty. The list starts with
  the two attribute selectors, followed by the three class selectors.
\<close>

theorem find_first_nonempty_strategy:
  "(k < length selectors \<and> (\<forall>j<k. querySelectorAll pg (selectors ! j) = Inr [])
      \<and> querySelectorAll pg (selectors ! k) = Inr r \<and> r \<noteq> []
      \<longrightarrow> findWalmartSearchResultElements pg = r)
   \<and> ((\<forall>s \<in> set selectors. querySelectorAll pg s = Inr [])
      \<longrightarrow> findWalmartSearchResultElements pg = [])
   \<and> map is_attribute_selector selectors = [True, True, False, False, False]
   \<and> map is_class_selector selectors = [False, False, True, True, True]"
proof -
  have a: "k < length selectors \<and> (\<forall>j<k. querySelectorAll pg (selectors ! j) = Inr [])
      \<and> querySelectorAll pg (selectors ! k) = Inr r \<and> r \<noteq> []
      \<longrightarrow> findWalmartSearchResultElements pg = r"
    using find_loop_first [of k selectors pg r]
    by (auto simp: findWalmartSearchResultElements_def)
  have b: "(\<forall>s \<in> set selectors. querySelectorAll pg s = Inr [])
      \<longrightarrow> findWalmartSearchResultElements pg = []"
    using find_loop_none [of selectors pg]
    by (auto simp: findWalmartSearchResultElements_def)
  have c: "map is_attribute_selector selectors = [True, True, False, False, False]"
    by (simp add: selectors_def is_attribute_selector_def)
  have d: "map is_class_selector selectors = [False, False, True, True, True]"
    by (simp add: selectors_def is_class_selector_def)
  from a b c d show ?thesis by blast
qed

theorem find_first_nonempty_strategy_witness:
  "querySelectorAll walmart_page ''.search-result-gridview-item'' = Inr [leaf ''B'', leaf ''C'']
   \<and> findWalmartSearchResultElements walmart_page = [leaf ''A'']
   \<and> findWalmartSearchResultElements (walmart_page\<lparr>querySelectorAll := (\<lambda>s. Inr [])\<rparr>) = []"
proof -
  have k: "(1::nat) < length selectors" by (simp add: selectors_def)
  have e: "\<forall>j<1::nat. querySelectorAll walmart_page (selectors ! j) = Inr []"
    by (simp add: selectors_def walmart_page_def)
  have h: "querySelectorAll walmart_page (selectors ! 1) = Inr [leaf ''A'']"
    by (simp add: selectors_def walmart_page_def)
  have 0: "querySelectorAll walmart_page ''.search-result-gridview-item'' = Inr [leaf ''B'', leaf ''C'']"
    by (simp add: walmart_page_def)
  have 1: "findWalmartSearchResultElements walmart_page = [leaf ''A'']"
    using find_first_nonempty_strategy [of 1 walmart_page "[leaf ''A'']"] k e h by simp
  have 2: "findWalmartSearchResultElements (walmart_page\<lparr>querySelectorAll := (\<lambda>s. Inr [])\<rparr>) = []"
    using find_first_nonempty_strategy [of 0 "walmart_page\<lparr>querySelectorAll := (\<lambda>s. Inr [])\<rparr>" "[]"]
    by simp
  from 0 1 2 show ?thesis by simp
qed

section \<open>Errors\<close>

lemma listing_title: "extract_title (listing '' Some Title '' ''$12.99'' h) = Inr ''Some Title''"
  by (simp add: extract_title_def bind_result_def listing_def leaf_def selector_eval trim_def
      isWhiteSpace_def code_def)

lemma price_text_12_99: "parse_price_text ''$12.99'' = Some (Num (1299 / 100))"
  by (simp add: parse_price_text_def price_of_match_def pattern_eval regex_eval conversion_eval
      char_eval num_add.simps)

lemma listing_price: "extract_price (listing t ''$12.99'' h) = Inr (Some (Num (1299 / 100)))"
  by (simp add: extract_price_def bind_result_def listing_def leaf_def selector_eval
      or_default_def price_text_12_99 no_price_def isNaN_def)

lemma listing_url: "extract_url walmart_page (listing t p ''//'') = Inl TypeError"
  "extract_url walmart_page (listing t p ''/ip/Some-Title/123456'')
     = Inr ''https://www.walmart.com/ip/Some-Title/123456''"
  by (simp_all add: extract_url_def bind_result_def listing_def with_attribute_def selector_eval
      or_default_def walmart_page_def)

text \<open>
  C6 (no error reaches the caller). Both operations return a plain value, a sequence
  and an optional record. Whenever the body of \<open>findWalmartSearchResultElements\<close>
  throws, which it does when a query throws after the queries before it found
  nothing, the result is the empty sequence. Whenever the body of
  \<open>extractWalmartSearchResult\<close> throws, the result is null, and so it is when any
  of its steps (title, price, URL, image, rating, review count) is one that throws.
  The witness is a page whose queries throw and an element whose link is not a URL, so
  that \<open>new URL\<close> throws after the title and the price have been read.
\<close>

theorem errors_are_caught:
  "(find_loop pg selectors = Inl e \<longrightarrow> findWalmartSearchResultElements pg = [])
   \<and> (k < length selectors \<and> (\<forall>j<k. querySelectorAll pg (selectors ! j) = Inr [])
        \<and> querySelectorAll pg (selectors ! k) = Inl e
        \<longrightarrow> findWalmartSearchResultElements pg = [])
   \<and> (extract_body pg element = Inl e \<longrightarrow> extractWalmartSearchResult pg element = None)
   \<and> (extract_title element = Inl e \<or> extract_price element = Inl e
        \<or> extract_url pg element = Inl e \<or> extract_image element = Inl e
        \<or> extract_rating element = Inl e \<or> extract_review_count element = Inl e
        \<longrightarrow> extractWalmartSearchResult pg element = None)"
proof (intro conjI impI)
  assume "find_loop pg selectors = Inl e"
  then show "findWalmartSearchResultElements pg = []"
    by (simp add: findWalmartSearchResultElements_def)
next
  assume "k < length selectors \<and> (\<forall>j<k. querySelectorAll pg (selectors ! j) = Inr [])
        \<and> querySelectorAll pg (selectors ! k) = Inl e"
  then have "find_loop pg selectors = Inl e"
    using find_loop_throws [of k selectors pg e] by blast
  then show "findWalmartSearchResultElements pg = []"
    by (simp add: findWalmartSearchResultElements_def)
next
  assume "extract_body pg element = Inl e"
  then show "extractWalmartSearchResult pg element = None"
    by (simp add: extractWalmartSearchResult_def)
next
  assume "extract_title element = Inl e \<or> extract_price element = Inl e
        \<or> extract_url pg element = Inl e \<or> extract_image element = Inl e
        \<or> extract_rating element = Inl e \<or> extract_review_count element = Inl e"
  then show "extractWalmartSearchResult pg element = None"
    by (cases "extract_title element"; cases "extract_price element";
        cases "extract_url pg element"; cases "extract_image element";
        cases "extract_rating element"; cases "extract_review_count element")
       (auto simp: extractWalmartSearchResult_def extract_body_def bind_result_def
             split: option.splits)
qed

theorem errors_are_caught_witness:
  "find_loop (walmart_page\<lparr>querySelectorAll := (\<lambda>s. Inl SyntaxError)\<rparr>) selectors = Inl SyntaxError
   \<and> findWalmartSearchResultElements (walmart_page\<lparr>querySelectorAll := (\<lambda>s. Inl SyntaxError)\<rparr>) = []
   \<and> extract_body walmart_page (listing '' Some Title '' ''$12.99'' ''//'') = Inl TypeError
   \<and> extractWalmartSearchResult walmart_page (listing '' Some Title '' ''$12.99'' ''//'') = None"
proof -
  let ?pg = "walmart_page\<lparr>querySelectorAll := (\<lambda>s. Inl SyntaxError)\<rparr>"
  let ?el = "listing '' Some Title '' ''$12.99'' ''//''"
  have 1: "find_loop ?pg selectors = Inl SyntaxError"
    by (simp add: selectors_def bind_result_def)
  have 2: "extract_body walmart_page ?el = Inl TypeError"
    by (simp add: extract_body_def listing_title listing_price listing_url bind_result_def isNaN_def)
  from 1 2 errors_are_caught [of ?pg SyntaxError _ ?el]
    errors_are_caught [of walmart_page TypeError _ ?el]
  show ?thesis by simp
qed

section \<open>The mandatory fields\<close>




lemma startsWith_digit:
  "isDigit d \<Longrightarrow> \<not> startsWith (d # s) ''Infinity''"
  by (auto simp: digit_facts)

lemma parseFloat_decimal:
  assumes "ds \<noteq> []" "\<forall>c \<in> set ds. isDigit c" "\<forall>c \<in> set fs. isDigit c"
  shows "parseFloat (ds @ ''.'' @ fs) = Num (of_nat (decimal ds) + of_nat (decimal fs) / 10 ^ length fs)"
proof -
  obtain d ds' where ds: "ds = d # ds'" using assms(1) by (cases ds) auto
  with assms(2) have d: "isDigit d" by simp
  let ?s = "ds @ ''.'' @ fs"
  have 1: "dropWhile isWhiteSpace ?s = ?s" using d ds by (simp add: digit_facts)
  have 2: "strip_sign ?s = (False, ?s)" using d ds by (simp add: strip_sign_def digit_facts)
  have 3: "\<not> startsWith ?s ''Infinity''" using d ds by (simp add: digit_facts)
  have nd: "\<not> isDigit CHR ''.''" by (simp add: isDigit_def code_def)
  have 4: "takeWhile isDigit ?s = ds" "dropWhile isDigit ?s = ''.'' @ fs"
    using assms(2) nd by (simp_all add: takeWhile_append2 dropWhile_append2)
  have 5: "takeWhile isDigit fs = fs" "dropWhile isDigit fs = []"
    using assms(3) by (simp_all add: takeWhile_eq_all_conv)
  show ?thesis
    using assms(1)
    by (simp add: parseFloat_def 1 2 3 4 5 Let_def exponent_part_def scale10_def del: append.simps)
       (simp add: 5)
qed







lemma first_id_slug_url:
  "first_id idPatterns ''https://www.walmart.com/ip/Some-Title/123456'' = Some ''123456''"
  by (simp add: pattern_eval regex_eval or_undefined_def char_eval)




text \<open>
  C9 (split price without digits). Let the title and the URL resolve, let the price
  element be absent or give no price, and let both split elements be present with no
  digit in their text. Then the defaults \<open>"0"\<close> and \<open>"00"\<close> are parsed, and a record
  with price 0 is returned, provided the remaining queries do not throw.
\<close>

theorem split_price_defaults:
  assumes "extract_title element = Inr t" and "t \<noteq> []"
    and "querySelector element price_selector = Inr priceElement"
    and "no_price (case priceElement of None \<Rightarrow> None
                   | Some pe \<Rightarrow> parse_price_text (or_default (textContent pe) []))"
    and "querySelector element whole_dollar_selector = Inr (Some wholeDollarElement)"
    and "querySelector element cents_selector = Inr (Some centsElement)"
    and "\<forall>c \<in> set (or_default (textContent wholeDollarElement) []). \<not> isDigit c"
    and "\<forall>c \<in> set (or_default (textContent centsElement) []). \<not> isDigit c"
    and "extract_url pg element = Inr u" and "u \<noteq> []"
    and "extract_image element = Inr img" and "extract_rating element = Inr rating"
    and "extract_review_count element = Inr reviewCount"
  shows "extractWalmartSearchResult pg element =
     Some \<lparr>title = t, price = Num 0, imageUrl = img, url = u, marketplace = ''walmart'',
        item_id = extract_item_id element u,
        ratings = \<lparr>average = rating, count = reviewCount\<rparr>\<rparr>"
proof -
  have w: "digits_or wholeDollarElement ''0'' = ''0''"
    using assms(7) by (auto simp: digits_or_def or_default_def filter_empty_conv split: option.splits)
  have c: "digits_or centsElement ''00'' = ''00''"
    using assms(8) by (auto simp: digits_or_def or_default_def filter_empty_conv split: option.splits)
  have z: "parseFloat ''0.00'' = Num 0"
    using parseFloat_decimal [of "''0''" "''00''"] by (simp add: digit_zero decimal_def)
  have p: "extract_price element = Inr (Some (Num 0))"
    using assms(3,4,5,6) by (simp add: extract_price_def bind_result_def Let_def w c z)
  show ?thesis
    using assms(1,2,9,10,11,12,13) p
    by (simp add: extractWalmartSearchResult_def extract_body_def bind_result_def isNaN_def)
qed

lemma split_listing_parts:
  "extract_title (split_listing ''Some Title'' w c h) = Inr ''Some Title''"
  "querySelector (split_listing t w c h) price_selector = Inr None"
  "querySelector (split_listing t w c h) whole_dollar_selector = Inr (Some (leaf w))"
  "querySelector (split_listing t w c h) cents_selector = Inr (Some (leaf c))"
  "extract_url walmart_page (split_listing t w c ''/ip/Some-Title/123456'')
     = Inr ''https://www.walmart.com/ip/Some-Title/123456''"
  "extract_image (split_listing t w c h) = Inr None"
  "extract_rating (split_listing t w c h) = Inr None"
  "extract_review_count (split_listing t w c h) = Inr None"
  by (simp_all add: extract_title_def extract_url_def extract_image_def extract_rating_def
      extract_review_count_def bind_result_def split_listing_def leaf_def with_attribute_def
      selector_eval trim_def isWhiteSpace_def code_def or_default_def walmart_page_def)

theorem split_price_defaults_witness:
  "extractWalmartSearchResult walmart_page
     (split_listing ''Some Title'' ''$--'' ''--'' ''/ip/Some-Title/123456'')
   = Some \<lparr>title = ''Some Title'', price = Num 0, imageUrl = None,
       url = ''https://www.walmart.com/ip/Some-Title/123456'', marketplace = ''walmart'',
       item_id = Some ''123456'', ratings = \<lparr>average = None, count = None\<rparr>\<rparr>"
proof -
  let ?el = "split_listing ''Some Title'' ''$--'' ''--'' ''/ip/Some-Title/123456''"
  have np: "no_price (case None of None \<Rightarrow> None
                   | Some pe \<Rightarrow> parse_price_text (or_default (textContent pe) []))"
    by (simp add: no_price_def)
  have nd: "\<forall>c \<in> set (or_default (textContent (leaf ''$--'')) []). \<not> isDigit c"
    "\<forall>c \<in> set (or_default (textContent (leaf ''--'')) []). \<not> isDigit c"
    by (simp_all add: leaf_def or_default_def isDigit_def code_def)
  have "extractWalmartSearchResult walmart_page ?el =
     Some \<lparr>title = ''Some Title'', price = Num 0, imageUrl = None,
        url = ''https://www.walmart.com/ip/Some-Title/123456'', marketplace = ''walmart'',
        item_id = extract_item_id ?el ''https://www.walmart.com/ip/Some-Title/123456'',
        ratings = \<lparr>average = None, count = None\<rparr>\<rparr>"
    by (rule split_price_defaults [OF split_listing_parts(1) _ split_listing_parts(2) np split_listing_parts(3,4) nd split_listing_parts(5) _ split_listing_parts(6,7,8)])
       simp_all
  then show ?thesis by (simp add: extract_item_id_def first_id_slug_url)
qed

section \<open>The link and the item identifier\<close>






section \<open>The rating\<close>

















end
